theory Spec2Isabelle
  imports Main
begin

section \<open>The layer graph of the framework, as the builder sees it\<close>

text \<open>
  \<^verbatim>\<open>resnet.py\<close> assembles a graph of framework layers. Every \<^verbatim>\<open>Layer(args)(x)\<close> of the
  source creates a new symbolic tensor from the layer and the tensors it is called on.
  A tensor is modelled by the layer that produced it and that layer's inbound tensors,
  so a tensor is the whole sub-graph that feeds it. The arguments of each layer are the
  keyword arguments the source passes, in the source's order.

  A dimension is a Python integer or \<^verbatim>\<open>None\<close>; a shape is a tuple of dimensions.
\<close>

type_synonym dim = "int option"
type_synonym shape = "dim list"

datatype layer =
    Input shape
    \<comment> \<open>\<^verbatim>\<open>Input(shape=...)\<close>\<close>
  | Convolution2D dim int int "int \<times> int" string string
    \<comment> \<open>\<^verbatim>\<open>nb_filter, nb_row, nb_col, subsample, init, border_mode\<close>\<close>
  | BatchNormalization int nat
    \<comment> \<open>\<^verbatim>\<open>mode, axis\<close>\<close>
  | Activation string
  | MaxPooling2D "int \<times> int" "int \<times> int" string
    \<comment> \<open>\<^verbatim>\<open>pool_size, strides, border_mode\<close>\<close>
  | AveragePooling2D "dim \<times> dim" "int \<times> int"
    \<comment> \<open>\<^verbatim>\<open>pool_size, strides\<close>\<close>
  | Flatten
  | Dense int string string
    \<comment> \<open>\<^verbatim>\<open>output_dim, init, activation\<close>\<close>
  | Merge string
    \<comment> \<open>\<^verbatim>\<open>merge([...], mode=...)\<close>\<close>

datatype tensor = Tensor layer "tensor list"

text \<open>
  The model object: \<^verbatim>\<open>Model(input=..., output=...)\<close> creates it uncompiled, and
  \<^verbatim>\<open>model.compile(loss=..., optimizer=...)\<close> stores the loss and the optimizer in it.
\<close>

record model =
  model_input :: tensor
  model_output :: tensor
  compiled :: "(string \<times> string) option"

definition compile :: "model \<Rightarrow> string \<Rightarrow> string \<Rightarrow> model" where
  "compile m loss optimizer = m\<lparr>compiled := Some (loss, optimizer)\<rparr>"

section \<open>Effects: the graph built so far, and exceptions\<close>

text \<open>
  The state is the list of tensors created so far, in creation order. A computation
  either returns a value or raises; the state survives a raise, so what had been built
  before an exception stays visible.
\<close>

datatype error = Exception string | ZeroDivisionError | TypeError | IndexError | ValueError

type_synonym graph = "tensor list"
type_synonym 'a prog = "graph \<Rightarrow> (error + 'a) \<times> graph"

definition return :: "'a \<Rightarrow> 'a prog" where
  "return a = (\<lambda>g. (Inr a, g))"

definition raise :: "error \<Rightarrow> 'a prog" where
  "raise e = (\<lambda>g. (Inl e, g))"

definition bind :: "'a prog \<Rightarrow> ('a \<Rightarrow> 'b prog) \<Rightarrow> 'b prog" where
  "bind m f = (\<lambda>g. case m g of (Inl e, g') \<Rightarrow> (Inl e, g') | (Inr a, g') \<Rightarrow> f a g')"

text \<open>A \<^verbatim>\<open>for\<close> loop over a list, threading the loop's variables.\<close>

fun for_loop :: "'i list \<Rightarrow> ('i \<Rightarrow> 's \<Rightarrow> 's prog) \<Rightarrow> 's \<Rightarrow> 's prog" where
  "for_loop [] body s = return s"
| "for_loop (i # is) body s = bind (body i s) (for_loop is body)"

text \<open>Python's \<^verbatim>\<open>t[i]\<close> on a tuple and \<^verbatim>\<open>a // b\<close> on dimensions.\<close>

definition getitem :: "'a list \<Rightarrow> nat \<Rightarrow> 'a prog" where
  "getitem xs i = (if i < length xs then return (xs ! i) else raise IndexError)"

fun floordiv :: "dim \<Rightarrow> dim \<Rightarrow> int prog" where
  "floordiv (Some a) (Some b) = (if b = 0 then raise ZeroDivisionError else return (a div b))"
| "floordiv _ _ = raise TypeError"

section \<open>What the module takes from outside\<close>

text \<open>
  The framework is not code of the repository, so it is a parameter:
  \<^item> \<open>image_dim_ordering\<close> is \<^verbatim>\<open>K.image_dim_ordering()\<close>, which fixes the axes at import
    time;
  \<^item> \<open>keras_shape\<close> is the \<^verbatim>\<open>_keras_shape\<close> that the framework attaches to a tensor;
  \<^item> \<open>layer_error\<close> is the framework's validation of a layer and of its call on inbound
    tensors: the exception that \<^verbatim>\<open>Layer(args)(x)\<close> or \<^verbatim>\<open>merge(...)\<close> raises, if it raises;
  \<^item> \<open>model_error\<close> is the same for \<^verbatim>\<open>Model(input=..., output=...)\<close>;
  \<^item> \<open>plot_model_cwd\<close>, \<open>summary\<close> and \<open>visual_path\<close> are the plotting helper, the
    printing of a model, and the directory of the plots.
  A theorem with a free environment holds for every framework.
\<close>

datatype dim_ordering = TF | TH

record env =
  image_dim_ordering :: dim_ordering
  keras_shape :: "tensor \<Rightarrow> shape"
  layer_error :: "layer \<Rightarrow> tensor list \<Rightarrow> error option"
  model_error :: "tensor \<Rightarrow> tensor \<Rightarrow> error option"
  plot_model_cwd :: "model \<Rightarrow> string \<Rightarrow> string \<Rightarrow> unit prog"
  summary :: "model \<Rightarrow> unit prog"
  visual_path :: string

definition INPUT_SHAPE :: "env \<Rightarrow> shape" where
  "INPUT_SHAPE E = (case image_dim_ordering E of
      TF \<Rightarrow> [Some 224, Some 224, Some 3] | TH \<Rightarrow> [Some 3, Some 224, Some 224])"

definition ROW_AXIS :: "env \<Rightarrow> nat" where
  "ROW_AXIS E = (case image_dim_ordering E of TF \<Rightarrow> 1 | TH \<Rightarrow> 2)"

definition COL_AXIS :: "env \<Rightarrow> nat" where
  "COL_AXIS E = (case image_dim_ordering E of TF \<Rightarrow> 2 | TH \<Rightarrow> 3)"

definition CHANNEL_AXIS :: "env \<Rightarrow> nat" where
  "CHANNEL_AXIS E = (case image_dim_ordering E of TF \<Rightarrow> 3 | TH \<Rightarrow> 1)"

text \<open>
  A layer call raises what the framework raises, and otherwise adds the new tensor to
  the graph and returns it. \<^verbatim>\<open>Model(...)\<close> raises what the framework raises, and otherwise
  returns the uncompiled model.
\<close>

definition call :: "env \<Rightarrow> layer \<Rightarrow> tensor list \<Rightarrow> tensor prog" where
  "call E l xs = (case layer_error E l xs of
      Some e \<Rightarrow> raise e
    | None \<Rightarrow> (\<lambda>g. (Inr (Tensor l xs), g @ [Tensor l xs])))"

definition Model :: "env \<Rightarrow> tensor \<Rightarrow> tensor \<Rightarrow> model prog" where
  "Model E inp out = (case model_error E inp out of
      Some e \<Rightarrow> raise e
    | None \<Rightarrow> return \<lparr>model_input = inp, model_output = out, compiled = None\<rparr>)"

section \<open>The builder\<close>

text \<open>
  The source's names, without the leading underscore. A closure \<^verbatim>\<open>f(input)\<close> returned by
  a helper is the helper applied to one more argument.
\<close>

definition conv_bn_relu :: "env \<Rightarrow> int \<Rightarrow> int \<Rightarrow> int \<Rightarrow> int \<times> int \<Rightarrow> tensor \<Rightarrow> tensor prog" where
  "conv_bn_relu E nb_filter nb_row nb_col subsample inp =
     bind (call E (Convolution2D (Some nb_filter) nb_row nb_col subsample ''he_normal'' ''same'') [inp]) (\<lambda>conv.
     bind (call E (BatchNormalization 0 (CHANNEL_AXIS E)) [conv]) (\<lambda>norm.
     call E (Activation ''relu'') [norm]))"

definition bn_relu_conv :: "env \<Rightarrow> int \<Rightarrow> int \<Rightarrow> int \<Rightarrow> int \<times> int \<Rightarrow> tensor \<Rightarrow> tensor prog" where
  "bn_relu_conv E nb_filter nb_row nb_col subsample inp =
     bind (call E (BatchNormalization 0 (CHANNEL_AXIS E)) [inp]) (\<lambda>norm.
     bind (call E (Activation ''relu'') [norm]) (\<lambda>activation.
     call E (Convolution2D (Some nb_filter) nb_row nb_col subsample ''he_normal'' ''same'') [activation]))"

definition shortcut :: "env \<Rightarrow> tensor \<Rightarrow> tensor \<Rightarrow> tensor prog" where
  "shortcut E inp residual =
     bind (getitem (keras_shape E inp) (ROW_AXIS E)) (\<lambda>input_rows.
     bind (getitem (keras_shape E residual) (ROW_AXIS E)) (\<lambda>residual_rows.
     bind (floordiv input_rows residual_rows) (\<lambda>stride_width.
     bind (getitem (keras_shape E inp) (COL_AXIS E)) (\<lambda>input_cols.
     bind (getitem (keras_shape E residual) (COL_AXIS E)) (\<lambda>residual_cols.
     bind (floordiv input_cols residual_cols) (\<lambda>stride_height.
     bind (getitem (keras_shape E residual) (CHANNEL_AXIS E)) (\<lambda>residual_channels.
     bind (getitem (keras_shape E inp) (CHANNEL_AXIS E)) (\<lambda>input_channels.
     let equal_channels = (residual_channels = input_channels) in
     bind (if stride_width > 1 \<or> stride_height > 1 \<or> \<not> equal_channels
           then call E (Convolution2D residual_channels 1 1 (stride_width, stride_height)
                        ''he_normal'' ''valid'') [inp]
           else return inp) (\<lambda>shortcut.
     call E (Merge ''sum'') [shortcut, residual])))))))))"

type_synonym block_function = "int \<Rightarrow> int \<times> int \<Rightarrow> tensor \<Rightarrow> tensor prog"

definition residual_block :: "block_function \<Rightarrow> int \<Rightarrow> int \<Rightarrow> bool \<Rightarrow> tensor \<Rightarrow> tensor prog" where
  "residual_block block_function nb_filters repetitions is_first_layer inp =
     for_loop [0 ..< nat repetitions]
       (\<lambda>i inp. block_function nb_filters (if i = 0 \<and> \<not> is_first_layer then (2, 2) else (1, 1)) inp)
       inp"

definition basic_block :: "env \<Rightarrow> block_function" where
  "basic_block E nb_filters init_subsample inp =
     bind (bn_relu_conv E nb_filters 3 3 init_subsample inp) (\<lambda>conv1.
     bind (bn_relu_conv E nb_filters 3 3 (1, 1) conv1) (\<lambda>residual.
     shortcut E inp residual))"

definition bottleneck :: "env \<Rightarrow> block_function" where
  "bottleneck E nb_filters init_subsample inp =
     bind (bn_relu_conv E nb_filters 1 1 init_subsample inp) (\<lambda>conv_1_1.
     bind (bn_relu_conv E nb_filters 3 3 (1, 1) conv_1_1) (\<lambda>conv_3_3.
     bind (bn_relu_conv E (nb_filters * 4) 1 1 (1, 1) conv_3_3) (\<lambda>residual.
     shortcut E inp residual)))"

text \<open>
  The loop of \<^verbatim>\<open>build\<close> over \<^verbatim>\<open>enumerate(repetitions)\<close>; its variables are \<^verbatim>\<open>block\<close> and
  \<^verbatim>\<open>nb_filters\<close>.
\<close>

definition build_stages :: "block_function \<Rightarrow> int list \<Rightarrow> tensor \<Rightarrow> (tensor \<times> int) prog" where
  "build_stages block_fn repetitions pool1 =
     for_loop (enumerate 0 repetitions)
       (\<lambda>(i, r) (block, nb_filters).
          bind (residual_block block_fn nb_filters r (i = 0) block) (\<lambda>block.
          return (block, nb_filters * 2)))
       (pool1, 64)"

definition build :: "env \<Rightarrow> shape \<Rightarrow> int \<Rightarrow> block_function \<Rightarrow> int list \<Rightarrow> string \<Rightarrow> model prog" where
  "build E input_shape num_outputs block_fn repetitions mode =
     (if length input_shape \<noteq> 3
      then raise (Exception ''Input shape should be a tuple (nb_channels, nb_rows, nb_cols)'')
      else
        bind (call E (Input input_shape) []) (\<lambda>inp.
        bind (conv_bn_relu E 64 7 7 (2, 2) inp) (\<lambda>conv1.
        bind (call E (MaxPooling2D (3, 3) (2, 2) ''same'') [conv1]) (\<lambda>pool1.
        bind (build_stages block_fn repetitions pool1) (\<lambda>(block, nb_filters).
        bind (getitem (keras_shape E block) (ROW_AXIS E)) (\<lambda>rows.
        bind (getitem (keras_shape E block) (COL_AXIS E)) (\<lambda>cols.
        bind (call E (AveragePooling2D (rows, cols) (1, 1)) [block]) (\<lambda>pool2.
        bind (call E Flatten [pool2]) (\<lambda>flatten1.
        bind (if mode = ''categorical''
              then call E (Dense num_outputs ''he_normal'' ''softmax'') [flatten1]
              else if mode = ''binary''
              then call E (Dense 1 ''he_normal'' ''sigmoid'') [flatten1]
              else raise (Exception ''mode should either be categorical or binary'')) (\<lambda>dense.
        Model E inp dense))))))))))"

text \<open>
  The named variants. Each builds, plots the model into \<^verbatim>\<open>visual_path\<close> and returns the
  model; \<^verbatim>\<open>mode\<close> is the default \<^verbatim>\<open>"categorical"\<close> where the source does not pass it.
\<close>

definition plotted :: "env \<Rightarrow> string \<Rightarrow> model prog \<Rightarrow> model prog" where
  "plotted E name b =
     bind b (\<lambda>model. bind (plot_model_cwd E model (visual_path E) name) (\<lambda>_. return model))"

definition build_resnet_18 :: "env \<Rightarrow> shape \<Rightarrow> int \<Rightarrow> model prog" where
  "build_resnet_18 E input_shape num_outputs =
     plotted E ''resnet_18.png''
       (build E input_shape num_outputs (basic_block E) [2, 2, 2, 2] ''categorical'')"

definition build_resnet_34 :: "env \<Rightarrow> shape \<Rightarrow> int \<Rightarrow> model prog" where
  "build_resnet_34 E input_shape num_outputs =
     plotted E ''resnet_34.png''
       (build E input_shape num_outputs (basic_block E) [3, 4, 6, 3] ''categorical'')"

definition build_resnet_34_binary :: "env \<Rightarrow> shape \<Rightarrow> model prog" where
  "build_resnet_34_binary E input_shape =
     plotted E ''resnet_34_binary.png''
       (build E input_shape 1 (basic_block E) [3, 4, 6, 3] ''binary'')"

definition build_resnet_50 :: "env \<Rightarrow> shape \<Rightarrow> int \<Rightarrow> model prog" where
  "build_resnet_50 E input_shape num_outputs =
     plotted E ''resnet_50.png''
       (build E input_shape num_outputs (bottleneck E) [3, 4, 6, 3] ''categorical'')"

definition build_resnet_101 :: "env \<Rightarrow> shape \<Rightarrow> int \<Rightarrow> model prog" where
  "build_resnet_101 E input_shape num_outputs =
     plotted E ''resnet_101.png''
       (build E input_shape num_outputs (bottleneck E) [3, 4, 23, 3] ''categorical'')"

definition build_resnet_152 :: "env \<Rightarrow> shape \<Rightarrow> int \<Rightarrow> model prog" where
  "build_resnet_152 E input_shape num_outputs =
     plotted E ''resnet_152.png''
       (build E input_shape num_outputs (bottleneck E) [3, 8, 36, 3] ''categorical'')"

text \<open>
  \<^verbatim>\<open>main\<close> builds ResNet-18, compiles the model, prints its summary and returns nothing.
\<close>

definition main :: "env \<Rightarrow> unit prog" where
  "main E =
     bind (build_resnet_18 E [Some 3, Some 224, Some 224] 1000) (\<lambda>model.
     summary E (compile model ''categorical_crossentropy'' ''sgd''))"

section \<open>A concrete framework, for running the builder\<close>

text \<open>
  To run the builder on concrete inputs an environment is needed. This one follows the
  framework's shape rules for the layers the builder uses: a convolution or pooling over
  a length \<open>n\<close> gives \<open>(n + stride - 1) // stride\<close> with border mode \<^verbatim>\<open>"same"\<close> and
  \<open>(n - size + stride) // stride\<close> with \<^verbatim>\<open>"valid"\<close>, an unknown length stays unknown, and
  every shape starts with the unknown batch dimension. Of the framework's
  validation it has the two checks that the builder can run into: a \<^verbatim>\<open>"sum"\<close> merge of
  tensors of different shapes raises \<^verbatim>\<open>ValueError\<close>, and an average pooling whose pool size
  has a \<^verbatim>\<open>None\<close> raises \<^verbatim>\<open>TypeError\<close>. It is not code of the repository; it only serves the
  runs on concrete inputs.
\<close>

fun conv_output_length :: "dim \<Rightarrow> int \<Rightarrow> string \<Rightarrow> int \<Rightarrow> dim" where
  "conv_output_length None filter_size border_mode stride = None"
| "conv_output_length (Some n) filter_size border_mode stride =
     Some (((if border_mode = ''same'' then n else n - filter_size + 1) + stride - 1) div stride)"

fun flat_length :: "shape \<Rightarrow> dim" where
  "flat_length [] = Some 1"
| "flat_length (None # ds) = None"
| "flat_length (Some n # ds) = (case flat_length ds of None \<Rightarrow> None | Some m \<Rightarrow> Some (n * m))"

fun over_spatial ::
  "dim_ordering \<Rightarrow> (dim \<Rightarrow> dim) \<Rightarrow> (dim \<Rightarrow> dim) \<Rightarrow> (dim \<Rightarrow> dim) \<Rightarrow> shape \<Rightarrow> shape" where
  "over_spatial TH on_channels on_rows on_cols [b, ch, rows, cols] =
     [b, on_channels ch, on_rows rows, on_cols cols]"
| "over_spatial TF on_channels on_rows on_cols [b, rows, cols, ch] =
     [b, on_rows rows, on_cols cols, on_channels ch]"
| "over_spatial ord on_channels on_rows on_cols s = s"

definition get_output_shape_for :: "dim_ordering \<Rightarrow> layer \<Rightarrow> shape \<Rightarrow> shape" where
  "get_output_shape_for ord l s = (case l of
      Convolution2D nf r c subsample init bm \<Rightarrow>
        over_spatial ord (\<lambda>ch. nf)
          (\<lambda>n. conv_output_length n r bm (fst subsample))
          (\<lambda>n. conv_output_length n c bm (snd subsample)) s
    | MaxPooling2D pool_size strides bm \<Rightarrow>
        over_spatial ord (\<lambda>ch. ch)
          (\<lambda>n. conv_output_length n (fst pool_size) bm (fst strides))
          (\<lambda>n. conv_output_length n (snd pool_size) bm (snd strides)) s
    | AveragePooling2D pool_size strides \<Rightarrow>
        (case pool_size of
           (Some pr, Some pc) \<Rightarrow>
             over_spatial ord (\<lambda>ch. ch)
               (\<lambda>n. conv_output_length n pr ''valid'' (fst strides))
               (\<lambda>n. conv_output_length n pc ''valid'' (snd strides)) s
         | _ \<Rightarrow> s)
    | Flatten \<Rightarrow> (case s of [] \<Rightarrow> [] | b # ds \<Rightarrow> [b, flat_length ds])
    | Dense n init act \<Rightarrow> (case s of [] \<Rightarrow> [] | b # ds \<Rightarrow> [b, Some n])
    | _ \<Rightarrow> s)"

fun keras1_shape :: "dim_ordering \<Rightarrow> tensor \<Rightarrow> shape" where
  "keras1_shape ord (Tensor (Input s) xs) = None # s"
| "keras1_shape ord (Tensor l []) = []"
| "keras1_shape ord (Tensor l (x # xs)) = get_output_shape_for ord l (keras1_shape ord x)"

definition keras1_layer_error :: "dim_ordering \<Rightarrow> layer \<Rightarrow> tensor list \<Rightarrow> error option" where
  "keras1_layer_error ord l xs = (case l of
      Merge mode \<Rightarrow>
        (case map (keras1_shape ord) xs of
           [] \<Rightarrow> None
         | s # ss \<Rightarrow> if list_all (\<lambda>s'. s' = s) ss then None else Some ValueError)
    | AveragePooling2D pool_size strides \<Rightarrow>
        (if fst pool_size = None \<or> snd pool_size = None then Some TypeError else None)
    | _ \<Rightarrow> None)"

definition E_th :: env where
  "E_th = \<lparr>image_dim_ordering = TH, keras_shape = keras1_shape TH,
           layer_error = keras1_layer_error TH, model_error = (\<lambda>inp out. None),
           plot_model_cwd = (\<lambda>model path name. return ()), summary = (\<lambda>model. return ()),
           visual_path = ''visual''\<rparr>"

section \<open>Names for the tensors the builder creates\<close>

text \<open>
  Abbreviations for the tensors that the helpers return and for the lists of tensors they
  add to the graph, so that statements stay readable. \<open>apply_blocks\<close> calls a block
  function once for each pair of arguments of a list, feeding each output to the next call.
\<close>

abbreviation bn_relu_conv_out :: "env \<Rightarrow> int \<Rightarrow> int \<Rightarrow> int \<Rightarrow> int \<times> int \<Rightarrow> tensor \<Rightarrow> tensor" where
  "bn_relu_conv_out E nb_filter nb_row nb_col subsample inp \<equiv>
     Tensor (Convolution2D (Some nb_filter) nb_row nb_col subsample ''he_normal'' ''same'')
       [Tensor (Activation ''relu'') [Tensor (BatchNormalization 0 (CHANNEL_AXIS E)) [inp]]]"

abbreviation bn_relu_conv_layers :: "env \<Rightarrow> int \<Rightarrow> int \<Rightarrow> int \<Rightarrow> int \<times> int \<Rightarrow> tensor \<Rightarrow> tensor list" where
  "bn_relu_conv_layers E nb_filter nb_row nb_col subsample inp \<equiv>
     [Tensor (BatchNormalization 0 (CHANNEL_AXIS E)) [inp],
      Tensor (Activation ''relu'') [Tensor (BatchNormalization 0 (CHANNEL_AXIS E)) [inp]],
      bn_relu_conv_out E nb_filter nb_row nb_col subsample inp]"

abbreviation projection :: "dim \<Rightarrow> int \<times> int \<Rightarrow> tensor \<Rightarrow> tensor" where
  "projection nb_filter subsample inp \<equiv>
     Tensor (Convolution2D nb_filter 1 1 subsample ''he_normal'' ''valid'') [inp]"

definition apply_blocks :: "block_function \<Rightarrow> (int \<times> (int \<times> int)) list \<Rightarrow> tensor \<Rightarrow> tensor prog" where
  "apply_blocks block_function calls =
     for_loop calls (\<lambda>(nb_filters, init_subsample). block_function nb_filters init_subsample)"

abbreviation conv_bn_relu_out :: "env \<Rightarrow> int \<Rightarrow> int \<Rightarrow> int \<Rightarrow> int \<times> int \<Rightarrow> tensor \<Rightarrow> tensor" where
  "conv_bn_relu_out E nb_filter nb_row nb_col subsample inp \<equiv>
     Tensor (Activation ''relu'') [Tensor (BatchNormalization 0 (CHANNEL_AXIS E))
       [Tensor (Convolution2D (Some nb_filter) nb_row nb_col subsample ''he_normal'' ''same'') [inp]]]"

abbreviation stem_pool :: "env \<Rightarrow> shape \<Rightarrow> tensor" where
  "stem_pool E input_shape \<equiv>
     Tensor (MaxPooling2D (3, 3) (2, 2) ''same'')
       [conv_bn_relu_out E 64 7 7 (2, 2) (Tensor (Input input_shape) [])]"

abbreviation stem_layers :: "env \<Rightarrow> shape \<Rightarrow> tensor list" where
  "stem_layers E input_shape \<equiv>
     [Tensor (Input input_shape) [],
      Tensor (Convolution2D (Some 64) 7 7 (2, 2) ''he_normal'' ''same'') [Tensor (Input input_shape) []],
      Tensor (BatchNormalization 0 (CHANNEL_AXIS E))
        [Tensor (Convolution2D (Some 64) 7 7 (2, 2) ''he_normal'' ''same'') [Tensor (Input input_shape) []]],
      conv_bn_relu_out E 64 7 7 (2, 2) (Tensor (Input input_shape) []),
      stem_pool E input_shape]"

abbreviation global_pool :: "env \<Rightarrow> tensor \<Rightarrow> tensor" where
  "global_pool E block \<equiv>
     Tensor (AveragePooling2D (keras_shape E block ! ROW_AXIS E, keras_shape E block ! COL_AXIS E) (1, 1))
       [block]"

abbreviation flattened :: "env \<Rightarrow> tensor \<Rightarrow> tensor" where
  "flattened E block \<equiv> Tensor Flatten [global_pool E block]"

abbreviation dense_layer :: "string \<Rightarrow> int \<Rightarrow> layer" where
  "dense_layer mode num_outputs \<equiv>
     (if mode = ''categorical'' then Dense num_outputs ''he_normal'' ''softmax''
      else Dense 1 ''he_normal'' ''sigmoid'')"

abbreviation merge_sum :: "tensor \<Rightarrow> tensor \<Rightarrow> tensor" where
  "merge_sum a b \<equiv> Tensor (Merge ''sum'') [a, b]"

abbreviation (input) stage_body :: "block_function \<Rightarrow> nat \<times> int \<Rightarrow> tensor \<times> int \<Rightarrow> (tensor \<times> int) prog" where
  "stage_body bf \<equiv> (\<lambda>(i, r) (block, nb_filters).
          bind (residual_block bf nb_filters r (i = 0) block) (\<lambda>block.
          return (block, nb_filters * 2)))"

text \<open>
  \<open>accepted E t\<close>: the framework raises nothing when the layer of \<open>t\<close> is called on the
  inbound tensors of \<open>t\<close>.
\<close>

definition accepted :: "env \<Rightarrow> tensor \<Rightarrow> bool" where
  "accepted E t = (case t of Tensor l xs \<Rightarrow> layer_error E l xs = None)"

text \<open>
  The part of \<^verbatim>\<open>build\<close> from the input layer to the flatten layer (lines 136 to 148 of
  the source), returning the input and the flatten tensor. It is used to say what has
  been built when \<^verbatim>\<open>build\<close> looks at \<^verbatim>\<open>mode\<close>.
\<close>

definition build_graph :: "env \<Rightarrow> shape \<Rightarrow> block_function \<Rightarrow> int list \<Rightarrow> (tensor \<times> tensor) prog" where
  "build_graph E input_shape block_fn repetitions =
     bind (call E (Input input_shape) []) (\<lambda>inp.
     bind (conv_bn_relu E 64 7 7 (2, 2) inp) (\<lambda>conv1.
     bind (call E (MaxPooling2D (3, 3) (2, 2) ''same'') [conv1]) (\<lambda>pool1.
     bind (build_stages block_fn repetitions pool1) (\<lambda>(block, nb_filters).
     bind (getitem (keras_shape E block) (ROW_AXIS E)) (\<lambda>rows.
     bind (getitem (keras_shape E block) (COL_AXIS E)) (\<lambda>cols.
     bind (call E (AveragePooling2D (rows, cols) (1, 1)) [block]) (\<lambda>pool2.
     bind (call E Flatten [pool2]) (\<lambda>flatten1.
     return (inp, flatten1)))))))))"

text \<open>A small run, used to instantiate the theorems: a 3x32x32 input and one basic block.\<close>

abbreviation example_shape :: shape where
  "example_shape \<equiv> [Some 3, Some 32, Some 32]"

abbreviation example_block :: tensor where
  "example_block \<equiv>
     merge_sum (stem_pool E_th example_shape)
       (bn_relu_conv_out E_th 64 3 3 (1, 1)
         (bn_relu_conv_out E_th 64 3 3 (1, 1) (stem_pool E_th example_shape)))"

abbreviation example_graph :: "tensor list" where
  "example_graph \<equiv>
     stem_layers E_th example_shape
       @ bn_relu_conv_layers E_th 64 3 3 (1, 1) (stem_pool E_th example_shape)
       @ bn_relu_conv_layers E_th 64 3 3 (1, 1)
           (bn_relu_conv_out E_th 64 3 3 (1, 1) (stem_pool E_th example_shape))
       @ [example_block]"

section \<open>Running the effects\<close>

lemma return_apply: "return a g = (Inr a, g)"
  by (simp add: return_def)

lemma raise_apply: "raise e g = (Inl e, g)"
  by (simp add: raise_def)

lemma call_apply:
  "call E l xs g = (case layer_error E l xs of
      Some e \<Rightarrow> (Inl e, g) | None \<Rightarrow> (Inr (Tensor l xs), g @ [Tensor l xs]))"
  by (simp add: call_def raise_def split: option.splits)

lemma Model_apply:
  "Model E inp out g = (case model_error E inp out of
      Some e \<Rightarrow> (Inl e, g)
    | None \<Rightarrow> (Inr \<lparr>model_input = inp, model_output = out, compiled = None\<rparr>, g))"
  by (simp add: Model_def raise_def return_def split: option.splits)

lemma bind_apply:
  "bind m f g = (case m g of (Inl e, g') \<Rightarrow> (Inl e, g') | (Inr a, g') \<Rightarrow> f a g')"
  by (simp add: bind_def)

lemma bind_return [simp]: "bind (return a) f = f a"
  by (simp add: bind_def return_def)

lemma bind_raise [simp]: "bind (raise e) f = raise e"
  by (simp add: bind_def raise_def)

lemma bind_return_right [simp]: "bind m return = m"
  by (auto simp: bind_def return_def fun_eq_iff split: prod.splits sum.splits)

lemma bind_assoc: "bind (bind m f) h = bind m (\<lambda>a. bind (f a) h)"
  by (auto simp: bind_def fun_eq_iff split: prod.splits sum.splits)

lemma bind_returns:
  "bind m f g = (Inr b, g') \<longleftrightarrow> (\<exists>a g1. m g = (Inr a, g1) \<and> f a g1 = (Inr b, g'))"
  by (auto simp: bind_def split: prod.splits sum.splits)

lemma bind_raises:
  "bind m f g = (Inl e, g') \<longleftrightarrow>
     m g = (Inl e, g') \<or> (\<exists>a g1. m g = (Inr a, g1) \<and> f a g1 = (Inl e, g'))"
  by (auto simp: bind_def split: prod.splits sum.splits)

lemma call_returns:
  "call E l xs g = (Inr t, g') \<longleftrightarrow>
     layer_error E l xs = None \<and> t = Tensor l xs \<and> g' = g @ [Tensor l xs]"
  by (auto simp: call_apply split: option.splits)

lemma call_accepted:
  "accepted E (Tensor l xs) \<Longrightarrow> call E l xs g = (Inr (Tensor l xs), g @ [Tensor l xs])"
  by (simp add: accepted_def call_apply)

lemma bind_call_accepted:
  "accepted E (Tensor l xs) \<Longrightarrow> bind (call E l xs) f g = f (Tensor l xs) (g @ [Tensor l xs])"
  by (simp add: bind_apply call_accepted)

lemma bind_call:
  "bind (call E l xs) f g = (case layer_error E l xs of
      Some e \<Rightarrow> (Inl e, g) | None \<Rightarrow> f (Tensor l xs) (g @ [Tensor l xs]))"
  by (simp add: bind_apply call_apply split: option.splits)

lemma call_extends: "\<exists>rest. snd (call E l xs g) = g @ rest"
  by (simp add: call_apply split: option.splits)

lemma return_returns: "return a g = (Inr b, g') \<longleftrightarrow> b = a \<and> g' = g"
  by (auto simp: return_def)

lemma getitem_apply:
  "getitem xs i g = (if i < length xs then (Inr (xs ! i), g) else (Inl IndexError, g))"
  by (simp add: getitem_def return_def raise_def)

lemma getitem_returns:
  "getitem xs i g = (Inr x, g') \<longleftrightarrow> i < length xs \<and> x = xs ! i \<and> g' = g"
  by (auto simp: getitem_apply)

lemma bind_getitem:
  "bind (getitem xs i) f g = (if i < length xs then f (xs ! i) g else (Inl IndexError, g))"
  by (simp add: getitem_def raise_apply)

lemma bind_floordiv:
  "bind (floordiv a b) f g =
     (case (a, b) of
        (Some x, Some y) \<Rightarrow> if y = 0 then (Inl ZeroDivisionError, g) else f (x div y) g
      | _ \<Rightarrow> (Inl TypeError, g))"
  by (cases a; cases b) (simp_all add: raise_apply)

section \<open>The helpers and the shortcut\<close>

lemma bn_relu_conv_returns:
  "bn_relu_conv E nb_filter nb_row nb_col subsample inp g = (Inr t, g') \<longleftrightarrow>
     list_all (accepted E) (bn_relu_conv_layers E nb_filter nb_row nb_col subsample inp)
     \<and> t = bn_relu_conv_out E nb_filter nb_row nb_col subsample inp
     \<and> g' = g @ bn_relu_conv_layers E nb_filter nb_row nb_col subsample inp"
  by (auto simp: bn_relu_conv_def bind_returns call_returns accepted_def)

lemma bn_relu_conv_accepted:
  "list_all (accepted E) (bn_relu_conv_layers E nb_filter nb_row nb_col subsample inp) \<Longrightarrow>
     bn_relu_conv E nb_filter nb_row nb_col subsample inp g =
       (Inr (bn_relu_conv_out E nb_filter nb_row nb_col subsample inp),
        g @ bn_relu_conv_layers E nb_filter nb_row nb_col subsample inp)"
  by (simp add: bn_relu_conv_returns)

lemma conv_bn_relu_returns:
  "conv_bn_relu E nb_filter nb_row nb_col subsample inp g = (Inr t, g') \<longleftrightarrow>
     list_all (accepted E)
       [Tensor (Convolution2D (Some nb_filter) nb_row nb_col subsample ''he_normal'' ''same'') [inp],
        Tensor (BatchNormalization 0 (CHANNEL_AXIS E))
         [Tensor (Convolution2D (Some nb_filter) nb_row nb_col subsample ''he_normal'' ''same'') [inp]],
        conv_bn_relu_out E nb_filter nb_row nb_col subsample inp]
     \<and> t = conv_bn_relu_out E nb_filter nb_row nb_col subsample inp
     \<and> g' = g @ [Tensor (Convolution2D (Some nb_filter) nb_row nb_col subsample ''he_normal'' ''same'') [inp],
           Tensor (BatchNormalization 0 (CHANNEL_AXIS E))
            [Tensor (Convolution2D (Some nb_filter) nb_row nb_col subsample ''he_normal'' ''same'') [inp]],
           conv_bn_relu_out E nb_filter nb_row nb_col subsample inp]"
  by (auto simp: conv_bn_relu_def bind_returns call_returns accepted_def)

lemma bn_relu_conv_extends:
  "\<exists>rest. snd (bn_relu_conv E nb_filter nb_row nb_col subsample inp g) = g @ rest"
  by (simp add: bn_relu_conv_def bind_apply call_apply split: option.splits)

lemmas shortcut_simps =
  shortcut_def bind_getitem bind_floordiv bind_call call_apply return_apply raise_apply Let_def

lemma shortcut_returns:
  "shortcut E inp residual g = (Inr out, g') \<Longrightarrow>
     (out = merge_sum inp residual \<and> g' = g @ [out])
     \<or> (\<exists>ch s. out = merge_sum (projection ch s inp) residual \<and> g' = g @ [projection ch s inp, out])"
  by (auto simp: shortcut_simps split: if_splits option.splits)

lemma shortcut_extends: "\<exists>rest. snd (shortcut E inp residual g) = g @ rest"
  by (simp add: shortcut_simps split: option.splits)

lemma basic_block_returns:
  "basic_block E nb_filters init_subsample inp g = (Inr out, g') \<Longrightarrow>
     \<exists>sc rest. out = merge_sum sc
          (bn_relu_conv_out E nb_filters 3 3 (1, 1) (bn_relu_conv_out E nb_filters 3 3 init_subsample inp))
       \<and> (sc = inp \<or> (\<exists>ch s. sc = projection ch s inp))
       \<and> g' = g @ bn_relu_conv_layers E nb_filters 3 3 init_subsample inp
               @ bn_relu_conv_layers E nb_filters 3 3 (1, 1)
                   (bn_relu_conv_out E nb_filters 3 3 init_subsample inp)
               @ rest"
  unfolding basic_block_def bind_returns bn_relu_conv_returns
  by (fastforce dest: shortcut_returns)

lemma bottleneck_returns:
  "bottleneck E nb_filters init_subsample inp g = (Inr out, g') \<Longrightarrow>
     \<exists>sc rest. out = merge_sum sc
          (bn_relu_conv_out E (nb_filters * 4) 1 1 (1, 1)
            (bn_relu_conv_out E nb_filters 3 3 (1, 1)
              (bn_relu_conv_out E nb_filters 1 1 init_subsample inp)))
       \<and> (sc = inp \<or> (\<exists>ch s. sc = projection ch s inp))
       \<and> g' = g @ bn_relu_conv_layers E nb_filters 1 1 init_subsample inp
               @ bn_relu_conv_layers E nb_filters 3 3 (1, 1)
                   (bn_relu_conv_out E nb_filters 1 1 init_subsample inp)
               @ bn_relu_conv_layers E (nb_filters * 4) 1 1 (1, 1)
                   (bn_relu_conv_out E nb_filters 3 3 (1, 1)
                     (bn_relu_conv_out E nb_filters 1 1 init_subsample inp))
               @ rest"
  unfolding bottleneck_def bind_returns bn_relu_conv_returns
  by (fastforce dest: shortcut_returns)

lemma basic_block_accepted:
  "list_all (accepted E)
     (bn_relu_conv_layers E nb_filters 3 3 init_subsample inp
       @ bn_relu_conv_layers E nb_filters 3 3 (1, 1)
           (bn_relu_conv_out E nb_filters 3 3 init_subsample inp)) \<Longrightarrow>
   basic_block E nb_filters init_subsample inp g =
     shortcut E inp
       (bn_relu_conv_out E nb_filters 3 3 (1, 1) (bn_relu_conv_out E nb_filters 3 3 init_subsample inp))
       (g @ bn_relu_conv_layers E nb_filters 3 3 init_subsample inp
          @ bn_relu_conv_layers E nb_filters 3 3 (1, 1) (bn_relu_conv_out E nb_filters 3 3 init_subsample inp))"
  by (simp add: basic_block_def bind_apply bn_relu_conv_accepted)

lemma bottleneck_accepted:
  "list_all (accepted E)
     (bn_relu_conv_layers E nb_filters 1 1 init_subsample inp
       @ bn_relu_conv_layers E nb_filters 3 3 (1, 1)
           (bn_relu_conv_out E nb_filters 1 1 init_subsample inp)
       @ bn_relu_conv_layers E (nb_filters * 4) 1 1 (1, 1)
           (bn_relu_conv_out E nb_filters 3 3 (1, 1)
             (bn_relu_conv_out E nb_filters 1 1 init_subsample inp))) \<Longrightarrow>
   bottleneck E nb_filters init_subsample inp g =
     shortcut E inp
       (bn_relu_conv_out E (nb_filters * 4) 1 1 (1, 1)
         (bn_relu_conv_out E nb_filters 3 3 (1, 1)
           (bn_relu_conv_out E nb_filters 1 1 init_subsample inp)))
       (g @ bn_relu_conv_layers E nb_filters 1 1 init_subsample inp
          @ bn_relu_conv_layers E nb_filters 3 3 (1, 1)
              (bn_relu_conv_out E nb_filters 1 1 init_subsample inp)
          @ bn_relu_conv_layers E (nb_filters * 4) 1 1 (1, 1)
              (bn_relu_conv_out E nb_filters 3 3 (1, 1)
                (bn_relu_conv_out E nb_filters 1 1 init_subsample inp)))"
  by (simp add: bottleneck_def bind_apply bn_relu_conv_accepted)

lemma exact_quotient:
  fixes a b :: int
  assumes "0 < a" and "0 < b" and "b dvd a"
  shows "1 < a div b \<longleftrightarrow> a \<noteq> b"
proof -
  from assms(3) obtain k where k: "a = b * k" ..
  with assms(1,2) have "0 < k"
    by (simp add: zero_less_mult_iff)
  moreover from k assms(2) have "a div b = k"
    by simp
  moreover from k assms(2) have "a = b \<longleftrightarrow> k = 1"
    by simp
  ultimately show ?thesis by auto
qed

lemma shortcut_exact:
  assumes "ROW_AXIS E < length (keras_shape E inp)" "ROW_AXIS E < length (keras_shape E residual)"
    and "COL_AXIS E < length (keras_shape E inp)" "COL_AXIS E < length (keras_shape E residual)"
    and "CHANNEL_AXIS E < length (keras_shape E inp)" "CHANNEL_AXIS E < length (keras_shape E residual)"
    and "keras_shape E inp ! ROW_AXIS E = Some ir" "keras_shape E residual ! ROW_AXIS E = Some rr"
    and "keras_shape E inp ! COL_AXIS E = Some ic" "keras_shape E residual ! COL_AXIS E = Some rc"
    and "0 < ir" "0 < rr" "0 < ic" "0 < rc" "rr dvd ir" "rc dvd ic"
  shows "shortcut E inp residual g =
    (if keras_shape E residual ! CHANNEL_AXIS E = keras_shape E inp ! CHANNEL_AXIS E
        \<and> ir = rr \<and> ic = rc
     then call E (Merge ''sum'') [inp, residual] g
     else bind (call E (Convolution2D (keras_shape E residual ! CHANNEL_AXIS E) 1 1
                          (ir div rr, ic div rc) ''he_normal'' ''valid'') [inp])
               (\<lambda>shortcut. call E (Merge ''sum'') [shortcut, residual]) g)"
proof -
  have q: "1 < ir div rr \<longleftrightarrow> ir \<noteq> rr" "1 < ic div rc \<longleftrightarrow> ic \<noteq> rc"
    using assms by (simp_all add: exact_quotient)
  from assms(12,14) have nz: "rr \<noteq> 0" "rc \<noteq> 0"
    by simp_all
  show ?thesis
    using assms(1-10) nz
    by (simp add: shortcut_def bind_getitem bind_floordiv Let_def q)
qed

section \<open>The loops\<close>

lemma for_loop_append:
  "for_loop (xs @ ys) body s = bind (for_loop xs body s) (for_loop ys body)"
proof (induction xs arbitrary: s)
  case Nil
  show ?case by simp
next
  case (Cons i xs)
  have "for_loop (xs @ ys) body = (\<lambda>s. bind (for_loop xs body s) (for_loop ys body))"
    by (rule ext) (rule Cons.IH)
  then show ?case by (simp add: bind_assoc)
qed

lemma for_loop_map: "for_loop (map f xs) body s = for_loop xs (\<lambda>i. body (f i)) s"
proof (induction xs arbitrary: s)
  case Nil
  show ?case by simp
next
  case (Cons i xs)
  have "for_loop (map f xs) body = for_loop xs (\<lambda>i. body (f i))"
    by (rule ext) (rule Cons.IH)
  then show ?case by simp
qed

lemma apply_blocks_append:
  "apply_blocks bf (xs @ ys) x = bind (apply_blocks bf xs x) (apply_blocks bf ys)"
  unfolding apply_blocks_def by (rule for_loop_append)

lemma residual_block_calls:
  "residual_block bf nb_filters r is_first_layer =
     apply_blocks bf (map (\<lambda>j. (nb_filters, if j = 0 \<and> \<not> is_first_layer then (2, 2) else (1, 1)))
                        [0 ..< nat r])"
  by (rule ext) (simp add: residual_block_def apply_blocks_def for_loop_map)

lemma stages_loop:
  "for_loop (enumerate k reps) (stage_body bf) (x, f) =
     bind (apply_blocks bf
             (concat (map (\<lambda>(i, r). map (\<lambda>j. (f * 2 ^ (i - k), if j = 0 \<and> i \<noteq> 0 then (2, 2) else (1, 1)))
                                       [0 ..< nat r])
                          (enumerate k reps))) x)
          (\<lambda>block. return (block, f * 2 ^ length reps))"
proof (induction reps arbitrary: k f x)
  case Nil
  show ?case by (simp add: apply_blocks_def)
next
  case (Cons r reps)
  have shift: "map (\<lambda>(i, r). map (\<lambda>j. (f * 2 * 2 ^ (i - Suc k), if j = 0 \<and> i \<noteq> 0 then (2, 2) else (1, 1))) [0 ..< nat r])
                 (enumerate (Suc k) reps)
             = map (\<lambda>(i, r). map (\<lambda>j. (f * 2 ^ (i - k), if j = 0 \<and> i \<noteq> 0 then (2, 2) else (1, 1))) [0 ..< nat r])
                 (enumerate (Suc k) reps)"
  proof (rule map_cong [OF refl])
    fix p assume "p \<in> set (enumerate (Suc k) reps)"
    then have "Suc k \<le> fst p"
      by (simp add: in_set_enumerate_eq)
    then obtain i r' where p: "p = (i, r')" and "Suc k \<le> i"
      by (cases p) simp
    then have "(2::int) ^ (i - k) = 2 * 2 ^ (i - Suc k)"
      by (metis Suc_diff_le diff_Suc_Suc power_Suc)
    then show "(case p of (i, r) \<Rightarrow> map (\<lambda>j. (f * 2 * 2 ^ (i - Suc k), if j = 0 \<and> i \<noteq> 0 then (2, 2) else (1, 1))) [0 ..< nat r])
             = (case p of (i, r) \<Rightarrow> map (\<lambda>j. (f * 2 ^ (i - k), if j = 0 \<and> i \<noteq> 0 then (2, 2) else (1, 1))) [0 ..< nat r])"
      by (simp add: p)
  qed
  show ?case (is "?lhs = ?rhs")
  proof -
    have "?lhs = bind (residual_block bf f r (k = 0) x)
             (\<lambda>block. for_loop (enumerate (Suc k) reps) (stage_body bf) (block, f * 2))"
      by (simp add: bind_assoc)
    also have "\<dots> = bind (residual_block bf f r (k = 0) x)
             (\<lambda>block. bind (apply_blocks bf
                (concat (map (\<lambda>(i, r). map (\<lambda>j. (f * 2 * 2 ^ (i - Suc k), if j = 0 \<and> i \<noteq> 0 then (2, 2) else (1, 1)))
                                       [0 ..< nat r])
                          (enumerate (Suc k) reps))) block)
             (\<lambda>block. return (block, f * 2 * 2 ^ length reps)))"
      by (simp only: Cons.IH)
    also have "\<dots> = bind (residual_block bf f r (k = 0) x)
             (\<lambda>block. bind (apply_blocks bf
                (concat (map (\<lambda>(i, r). map (\<lambda>j. (f * 2 ^ (i - k), if j = 0 \<and> i \<noteq> 0 then (2, 2) else (1, 1)))
                                       [0 ..< nat r])
                          (enumerate (Suc k) reps))) block)
             (\<lambda>block. return (block, f * 2 * 2 ^ length reps)))"
      by (simp only: shift)
    also have "\<dots> = ?rhs"
      by (simp add: residual_block_calls apply_blocks_append bind_assoc mult.assoc)
    finally show ?thesis .
  qed
qed

lemma build_stages_calls:
  "build_stages bf reps x =
     bind (apply_blocks bf
             (concat (map (\<lambda>i. map (\<lambda>j. (64 * 2 ^ i, if j = 0 \<and> i \<noteq> 0 then (2, 2) else (1, 1)))
                                  [0 ..< nat (reps ! i)])
                          [0 ..< length reps])) x)
          (\<lambda>block. return (block, 64 * 2 ^ length reps))"
proof -
  have "enumerate 0 reps = map (\<lambda>i. (i, reps ! i)) [0 ..< length reps]"
    using enumerate_map_upt [of 0 "\<lambda>i. reps ! i" "length reps"] by (simp add: map_nth)
  then show ?thesis
    unfolding build_stages_def stages_loop by (simp add: comp_def)
qed






section \<open>The run of build\<close>

lemma build_split:
  "build E input_shape num_outputs block_fn repetitions mode =
     (if length input_shape \<noteq> 3
      then raise (Exception ''Input shape should be a tuple (nb_channels, nb_rows, nb_cols)'')
      else bind (build_graph E input_shape block_fn repetitions) (\<lambda>(inp, flatten1).
           bind (if mode = ''categorical''
                 then call E (Dense num_outputs ''he_normal'' ''softmax'') [flatten1]
                 else if mode = ''binary''
                 then call E (Dense 1 ''he_normal'' ''sigmoid'') [flatten1]
                 else raise (Exception ''mode should either be categorical or binary'')) (\<lambda>dense.
           Model E inp dense)))"
  by (simp add: build_def build_graph_def bind_assoc case_prod_unfold cong: if_cong)

lemma build_graph_returns:
  assumes "build_graph E input_shape block_fn repetitions g = (Inr (inp, flatten1), g')"
  shows "list_all (accepted E) (stem_layers E input_shape) \<and> inp = Tensor (Input input_shape) []
     \<and> (\<exists>block nb_filters gs.
          build_stages block_fn repetitions (stem_pool E input_shape) (g @ stem_layers E input_shape)
            = (Inr (block, nb_filters), gs)
        \<and> ROW_AXIS E < length (keras_shape E block) \<and> COL_AXIS E < length (keras_shape E block)
        \<and> accepted E (global_pool E block) \<and> accepted E (flattened E block)
        \<and> flatten1 = flattened E block
        \<and> g' = gs @ [global_pool E block, flattened E block])"
  using assms unfolding build_graph_def
  by (auto simp: bind_returns call_returns conv_bn_relu_returns getitem_returns return_returns
      accepted_def)

lemma build_graph_accepted:
  assumes "list_all (accepted E) (stem_layers E input_shape)"
    and "build_stages block_fn repetitions (stem_pool E input_shape) (g @ stem_layers E input_shape)
           = (Inr (block, nb_filters), gs)"
    and "ROW_AXIS E < length (keras_shape E block)" and "COL_AXIS E < length (keras_shape E block)"
    and "accepted E (global_pool E block)" and "accepted E (flattened E block)"
  shows "build_graph E input_shape block_fn repetitions g =
     (Inr (Tensor (Input input_shape) [], flattened E block),
      gs @ [global_pool E block, flattened E block])"
  using assms unfolding build_graph_def
  by (simp add: bind_call_accepted conv_bn_relu_def bind_assoc bind_getitem call_accepted
      bind_apply [of "build_stages _ _ _"] return_apply)

lemma build_graph_stages_raise:
  assumes "list_all (accepted E) (stem_layers E input_shape)"
    and "build_stages block_fn repetitions (stem_pool E input_shape) (g @ stem_layers E input_shape)
           = (Inl e, gs)"
  shows "build_graph E input_shape block_fn repetitions g = (Inl e, gs)"
  using assms unfolding build_graph_def
  by (simp add: bind_call_accepted conv_bn_relu_def bind_assoc bind_apply [of "build_stages _ _ _"])

lemma build_returns:
  assumes "build E input_shape num_outputs block_fn repetitions mode g = (Inr m, g')"
  shows "length input_shape = 3 \<and> (mode = ''categorical'' \<or> mode = ''binary'')
     \<and> (\<exists>inp flatten1 g1.
          build_graph E input_shape block_fn repetitions g = (Inr (inp, flatten1), g1)
        \<and> accepted E (Tensor (dense_layer mode num_outputs) [flatten1])
        \<and> model_error E inp (Tensor (dense_layer mode num_outputs) [flatten1]) = None
        \<and> g' = g1 @ [Tensor (dense_layer mode num_outputs) [flatten1]]
        \<and> m = \<lparr>model_input = inp,
                model_output = Tensor (dense_layer mode num_outputs) [flatten1],
                compiled = None\<rparr>)"
  using assms unfolding build_split
  by (auto simp: bind_returns call_returns accepted_def raise_apply Model_apply
      split: if_splits option.splits)

section \<open>The small run\<close>

lemmas E_th_simps =
  E_th_def ROW_AXIS_def COL_AXIS_def CHANNEL_AXIS_def get_output_shape_for_def
  keras1_layer_error_def accepted_def

lemmas run_simps =
  build_stages_calls apply_blocks_def basic_block_def bottleneck_def bn_relu_conv_def
  conv_bn_relu_def shortcut_def bind_apply getitem_apply return_apply raise_apply call_apply
  Let_def E_th_simps upt_rec

lemma example_stages:
  "build_stages (basic_block E_th) [1] (stem_pool E_th example_shape)
     ([] @ stem_layers E_th example_shape) = (Inr (example_block, 128), example_graph)"
  by (simp add: run_simps)

lemma example_block_axes:
  "ROW_AXIS E_th < length (keras_shape E_th example_block)"
  "COL_AXIS E_th < length (keras_shape E_th example_block)"
  "keras_shape E_th example_block ! ROW_AXIS E_th = Some 8"
  "keras_shape E_th example_block ! COL_AXIS E_th = Some 8"
  by (simp_all add: E_th_simps)

lemma example_accepted:
  "list_all (accepted E_th) (stem_layers E_th example_shape)"
  "accepted E_th (global_pool E_th example_block)"
  "accepted E_th (flattened E_th example_block)"
  "accepted E_th (Tensor (dense_layer mode num_outputs) [flattened E_th example_block])"
  by (simp_all add: E_th_simps)

lemma example_model_error: "model_error E_th inp out = None"
  by (simp add: E_th_def)

lemma example_build_graph:
  "build_graph E_th example_shape (basic_block E_th) [1] [] =
     (Inr (Tensor (Input example_shape) [], flattened E_th example_block),
      example_graph @ [global_pool E_th example_block, flattened E_th example_block])"
  using build_graph_accepted [OF example_accepted(1) example_stages example_block_axes(1,2)
      example_accepted(2,3)]
  by simp

lemma example_build:
  "build E_th example_shape num_outputs (basic_block E_th) [1] ''binary'' [] =
     (Inr \<lparr>model_input = Tensor (Input example_shape) [],
           model_output = Tensor (Dense 1 ''he_normal'' ''sigmoid'') [flattened E_th example_block],
           compiled = None\<rparr>,
      example_graph @ [global_pool E_th example_block, flattened E_th example_block,
                       Tensor (Dense 1 ''he_normal'' ''sigmoid'') [flattened E_th example_block]])"
  "build E_th example_shape num_outputs (basic_block E_th) [1] ''categorical'' [] =
     (Inr \<lparr>model_input = Tensor (Input example_shape) [],
           model_output = Tensor (Dense num_outputs ''he_normal'' ''softmax'')
                            [flattened E_th example_block],
           compiled = None\<rparr>,
      example_graph @ [global_pool E_th example_block, flattened E_th example_block,
                       Tensor (Dense num_outputs ''he_normal'' ''softmax'')
                         [flattened E_th example_block]])"
  using example_accepted(4) [of "''binary''" num_outputs]
    example_accepted(4) [of "''categorical''" num_outputs]
  by (simp_all add: build_split bind_apply example_build_graph call_accepted Model_apply
      example_model_error)

lemma example_unknown_size:
  "build_graph E_th [Some 3, None, None] (basic_block E_th) [1] [] =
     (Inl TypeError,
      stem_layers E_th [Some 3, None, None]
        @ bn_relu_conv_layers E_th 64 3 3 (1, 1) (stem_pool E_th [Some 3, None, None])
        @ bn_relu_conv_layers E_th 64 3 3 (1, 1)
            (bn_relu_conv_out E_th 64 3 3 (1, 1) (stem_pool E_th [Some 3, None, None])))"
  by (simp add: build_graph_def run_simps)

lemma plotted_E_th: "plotted E_th name b = b"
  by (simp add: plotted_def E_th_def)

section \<open>The claims\<close>

subsection \<open>C1: the order in which build wires the graph\<close>



subsection \<open>C2: when the shortcut inserts a projection\<close>

text \<open>
  Claim C2 says that \<^verbatim>\<open>_shortcut\<close> sums input and residual without a projection when their
  channel counts and spatial dimensions are equal, and applies a projection with the
  integer ratio as stride otherwise. The source decides on the floor quotients of the
  spatial dimensions, not on their equality. An input of 64 channels and 3x3 and a
  residual of 64 channels and 2x2 have different spatial dimensions and the quotient 1:
  no projection is added to the graph, and the merge of the two tensors, whose shapes
  differ, is refused by the framework.
\<close>

theorem shortcut_unequal_shapes_counterexample:
  "keras_shape E_th (Tensor (Input [Some 64, Some 3, Some 3]) []) = [None, Some 64, Some 3, Some 3]
   \<and> keras_shape E_th (Tensor (Convolution2D (Some 64) 3 3 (2, 2) ''he_normal'' ''same'')
        [Tensor (Input [Some 64, Some 3, Some 3]) []]) = [None, Some 64, Some 2, Some 2]
   \<and> shortcut E_th (Tensor (Input [Some 64, Some 3, Some 3]) [])
       (Tensor (Convolution2D (Some 64) 3 3 (2, 2) ''he_normal'' ''same'')
          [Tensor (Input [Some 64, Some 3, Some 3]) []]) []
     = (Inl ValueError, [])"
  by (simp add: E_th_simps shortcut_simps)

text \<open>
  C2, amended. For 4-dimensional tensors whose row and column dimensions are positive
  integers, those of the input multiples of those of the residual (the configuration
  that the comment in \<^verbatim>\<open>_shortcut\<close> asks for): when the channel counts are equal and the
  spatial dimensions are equal, \<^verbatim>\<open>_shortcut\<close> is the \<^verbatim>\<open>"sum"\<close> merge of input and residual, with
  no projection; otherwise it is the 1x1 projection convolution of the input, with the
  residual's channel count and the ratios of the dimensions as stride, followed by the
  \<^verbatim>\<open>"sum"\<close> merge of the projection and the residual.
\<close>

theorem shortcut_projection_rule:
  assumes "length (keras_shape E inp) = 4" and "length (keras_shape E residual) = 4"
    and "keras_shape E inp ! ROW_AXIS E = Some input_rows"
    and "keras_shape E residual ! ROW_AXIS E = Some residual_rows"
    and "keras_shape E inp ! COL_AXIS E = Some input_cols"
    and "keras_shape E residual ! COL_AXIS E = Some residual_cols"
    and "0 < input_rows" and "0 < residual_rows" and "0 < input_cols" and "0 < residual_cols"
    and "residual_rows dvd input_rows" and "residual_cols dvd input_cols"
  shows "shortcut E inp residual g =
    (if keras_shape E residual ! CHANNEL_AXIS E = keras_shape E inp ! CHANNEL_AXIS E
        \<and> input_rows = residual_rows \<and> input_cols = residual_cols
     then call E (Merge ''sum'') [inp, residual] g
     else bind (call E (Convolution2D (keras_shape E residual ! CHANNEL_AXIS E) 1 1
                          (input_rows div residual_rows, input_cols div residual_cols)
                          ''he_normal'' ''valid'') [inp])
               (\<lambda>shortcut. call E (Merge ''sum'') [shortcut, residual]) g)"
proof -
  have axes: "ROW_AXIS E < 4" "COL_AXIS E < 4" "CHANNEL_AXIS E < 4"
    by (simp_all add: ROW_AXIS_def COL_AXIS_def CHANNEL_AXIS_def split: dim_ordering.splits)
  show ?thesis
    using assms axes by (intro shortcut_exact) simp_all
qed

theorem shortcut_projection_rule_witness:
  "shortcut E_th (Tensor (Input [Some 64, Some 8, Some 8]) [])
     (Tensor (Convolution2D (Some 128) 3 3 (2, 2) ''he_normal'' ''same'')
        [Tensor (Input [Some 64, Some 8, Some 8]) []]) []
   = (Inr (merge_sum (projection (Some 128) (2, 2) (Tensor (Input [Some 64, Some 8, Some 8]) []))
             (Tensor (Convolution2D (Some 128) 3 3 (2, 2) ''he_normal'' ''same'')
                [Tensor (Input [Some 64, Some 8, Some 8]) []])),
      [projection (Some 128) (2, 2) (Tensor (Input [Some 64, Some 8, Some 8]) []),
       merge_sum (projection (Some 128) (2, 2) (Tensor (Input [Some 64, Some 8, Some 8]) []))
             (Tensor (Convolution2D (Some 128) 3 3 (2, 2) ''he_normal'' ''same'')
                [Tensor (Input [Some 64, Some 8, Some 8]) []])])
   \<and> shortcut E_th (Tensor (Input [Some 64, Some 8, Some 8]) [])
     (Tensor (Convolution2D (Some 64) 3 3 (1, 1) ''he_normal'' ''same'')
        [Tensor (Input [Some 64, Some 8, Some 8]) []]) []
   = (Inr (merge_sum (Tensor (Input [Some 64, Some 8, Some 8]) [])
             (Tensor (Convolution2D (Some 64) 3 3 (1, 1) ''he_normal'' ''same'')
                [Tensor (Input [Some 64, Some 8, Some 8]) []])),
      [merge_sum (Tensor (Input [Some 64, Some 8, Some 8]) [])
             (Tensor (Convolution2D (Some 64) 3 3 (1, 1) ''he_normal'' ''same'')
                [Tensor (Input [Some 64, Some 8, Some 8]) []])])"
  using
    shortcut_projection_rule [of E_th "Tensor (Input [Some 64, Some 8, Some 8]) []"
      "Tensor (Convolution2D (Some 128) 3 3 (2, 2) ''he_normal'' ''same'')
        [Tensor (Input [Some 64, Some 8, Some 8]) []]" 8 4 8 4 "[]"]
    shortcut_projection_rule [of E_th "Tensor (Input [Some 64, Some 8, Some 8]) []"
      "Tensor (Convolution2D (Some 64) 3 3 (1, 1) ''he_normal'' ''same'')
        [Tensor (Input [Some 64, Some 8, Some 8]) []]" 8 8 8 8 "[]"]
  by (simp add: E_th_simps bind_call call_apply)

subsection \<open>C7: a block's output is its residual path plus its input\<close>

text \<open>
  Claim C7. Whenever \<^verbatim>\<open>basic_block\<close> or \<^verbatim>\<open>bottleneck\<close> returns, the output is the
  \<^verbatim>\<open>"sum"\<close> merge of a shortcut and the residual path, in this order; the residual path is
  the chain of BN-relu-conv units applied to the block's input, and the shortcut is the
  block's input itself or a 1x1 projection convolution of it.
\<close>

theorem block_output_is_sum:
  "(basic_block E nb_filters init_subsample inp g = (Inr out, g') \<longrightarrow>
      (\<exists>sc. out = merge_sum sc
          (bn_relu_conv_out E nb_filters 3 3 (1, 1) (bn_relu_conv_out E nb_filters 3 3 init_subsample inp))
        \<and> (sc = inp \<or> (\<exists>ch s. sc = projection ch s inp))))
   \<and> (bottleneck E nb_filters init_subsample inp g = (Inr out, g') \<longrightarrow>
      (\<exists>sc. out = merge_sum sc
          (bn_relu_conv_out E (nb_filters * 4) 1 1 (1, 1)
            (bn_relu_conv_out E nb_filters 3 3 (1, 1)
              (bn_relu_conv_out E nb_filters 1 1 init_subsample inp)))
        \<and> (sc = inp \<or> (\<exists>ch s. sc = projection ch s inp))))"
  by (blast dest: basic_block_returns bottleneck_returns)

theorem block_output_is_sum_witness:
  "(\<exists>sc. fst (basic_block E_th 64 (1, 1) (Tensor (Input [Some 64, Some 8, Some 8]) []) []) =
      Inr (merge_sum sc
        (bn_relu_conv_out E_th 64 3 3 (1, 1)
          (bn_relu_conv_out E_th 64 3 3 (1, 1) (Tensor (Input [Some 64, Some 8, Some 8]) []))))
      \<and> (sc = Tensor (Input [Some 64, Some 8, Some 8]) []
          \<or> (\<exists>ch s. sc = projection ch s (Tensor (Input [Some 64, Some 8, Some 8]) []))))
   \<and> (\<exists>sc. fst (bottleneck E_th 64 (1, 1) (Tensor (Input [Some 64, Some 8, Some 8]) []) []) =
      Inr (merge_sum sc
        (bn_relu_conv_out E_th 256 1 1 (1, 1)
          (bn_relu_conv_out E_th 64 3 3 (1, 1)
            (bn_relu_conv_out E_th 64 1 1 (1, 1) (Tensor (Input [Some 64, Some 8, Some 8]) [])))))
      \<and> (sc = Tensor (Input [Some 64, Some 8, Some 8]) []
          \<or> (\<exists>ch s. sc = projection ch s (Tensor (Input [Some 64, Some 8, Some 8]) []))))"
proof -
  obtain out1 g1 where
    h1: "basic_block E_th 64 (1, 1) (Tensor (Input [Some 64, Some 8, Some 8]) []) [] = (Inr out1, g1)"
    by (simp add: run_simps)
  obtain out2 g2 where
    h2: "bottleneck E_th 64 (1, 1) (Tensor (Input [Some 64, Some 8, Some 8]) []) [] = (Inr out2, g2)"
    by (simp add: run_simps)
  from block_output_is_sum [of E_th 64 "(1, 1)" "Tensor (Input [Some 64, Some 8, Some 8]) []" "[]" out1 g1]
    block_output_is_sum [of E_th 64 "(1, 1)" "Tensor (Input [Some 64, Some 8, Some 8]) []" "[]" out2 g2]
    h1 h2
  show ?thesis by simp
qed

subsection \<open>C8: the residual path of the bottleneck block\<close>

text \<open>
  Claim C8. When the framework accepts the layers of the residual path, \<^verbatim>\<open>bottleneck\<close>
  first adds to the graph, in this order, a BN-relu-conv unit with a 1x1 convolution of
  \<^verbatim>\<open>nb_filters\<close> channels (with the block's subsample), one with a 3x3 convolution of
  \<^verbatim>\<open>nb_filters\<close> channels, and one with a 1x1 convolution of \<^verbatim>\<open>nb_filters * 4\<close> channels, each
  fed by the one before; whatever the shortcut adds comes after them, also when the
  shortcut raises. In particular this is the graph whenever \<^verbatim>\<open>bottleneck\<close> returns.
\<close>

theorem bottleneck_residual_path:
  "(list_all (accepted E)
      (bn_relu_conv_layers E nb_filters 1 1 init_subsample inp
        @ bn_relu_conv_layers E nb_filters 3 3 (1, 1)
            (bn_relu_conv_out E nb_filters 1 1 init_subsample inp)
        @ bn_relu_conv_layers E (nb_filters * 4) 1 1 (1, 1)
            (bn_relu_conv_out E nb_filters 3 3 (1, 1)
              (bn_relu_conv_out E nb_filters 1 1 init_subsample inp))) \<longrightarrow>
    (\<exists>rest. snd (bottleneck E nb_filters init_subsample inp g) =
       g @ bn_relu_conv_layers E nb_filters 1 1 init_subsample inp
         @ bn_relu_conv_layers E nb_filters 3 3 (1, 1)
             (bn_relu_conv_out E nb_filters 1 1 init_subsample inp)
         @ bn_relu_conv_layers E (nb_filters * 4) 1 1 (1, 1)
             (bn_relu_conv_out E nb_filters 3 3 (1, 1)
               (bn_relu_conv_out E nb_filters 1 1 init_subsample inp))
         @ rest))
   \<and> (bottleneck E nb_filters init_subsample inp g = (Inr out, g') \<longrightarrow>
    (\<exists>rest. g' =
       g @ bn_relu_conv_layers E nb_filters 1 1 init_subsample inp
         @ bn_relu_conv_layers E nb_filters 3 3 (1, 1)
             (bn_relu_conv_out E nb_filters 1 1 init_subsample inp)
         @ bn_relu_conv_layers E (nb_filters * 4) 1 1 (1, 1)
             (bn_relu_conv_out E nb_filters 3 3 (1, 1)
               (bn_relu_conv_out E nb_filters 1 1 init_subsample inp))
         @ rest))"
proof (intro conjI impI)
  assume acc: "list_all (accepted E)
      (bn_relu_conv_layers E nb_filters 1 1 init_subsample inp
        @ bn_relu_conv_layers E nb_filters 3 3 (1, 1)
            (bn_relu_conv_out E nb_filters 1 1 init_subsample inp)
        @ bn_relu_conv_layers E (nb_filters * 4) 1 1 (1, 1)
            (bn_relu_conv_out E nb_filters 3 3 (1, 1)
              (bn_relu_conv_out E nb_filters 1 1 init_subsample inp)))"
  show "\<exists>rest. snd (bottleneck E nb_filters init_subsample inp g) =
       g @ bn_relu_conv_layers E nb_filters 1 1 init_subsample inp
         @ bn_relu_conv_layers E nb_filters 3 3 (1, 1)
             (bn_relu_conv_out E nb_filters 1 1 init_subsample inp)
         @ bn_relu_conv_layers E (nb_filters * 4) 1 1 (1, 1)
             (bn_relu_conv_out E nb_filters 3 3 (1, 1)
               (bn_relu_conv_out E nb_filters 1 1 init_subsample inp))
         @ rest"
    unfolding bottleneck_accepted [OF acc]
    using shortcut_extends [of E inp _ "g @ bn_relu_conv_layers E nb_filters 1 1 init_subsample inp
         @ bn_relu_conv_layers E nb_filters 3 3 (1, 1)
             (bn_relu_conv_out E nb_filters 1 1 init_subsample inp)
         @ bn_relu_conv_layers E (nb_filters * 4) 1 1 (1, 1)
             (bn_relu_conv_out E nb_filters 3 3 (1, 1)
               (bn_relu_conv_out E nb_filters 1 1 init_subsample inp))"]
    by (simp only: append_assoc)
next
  assume "bottleneck E nb_filters init_subsample inp g = (Inr out, g')"
  from bottleneck_returns [OF this]
  show "\<exists>rest. g' =
       g @ bn_relu_conv_layers E nb_filters 1 1 init_subsample inp
         @ bn_relu_conv_layers E nb_filters 3 3 (1, 1)
             (bn_relu_conv_out E nb_filters 1 1 init_subsample inp)
         @ bn_relu_conv_layers E (nb_filters * 4) 1 1 (1, 1)
             (bn_relu_conv_out E nb_filters 3 3 (1, 1)
               (bn_relu_conv_out E nb_filters 1 1 init_subsample inp))
         @ rest"
    by blast
qed

theorem bottleneck_residual_path_witness:
  "\<exists>rest. snd (bottleneck E_th 64 (2, 2) (Tensor (Input [Some 64, Some 8, Some 8]) []) []) =
     bn_relu_conv_layers E_th 64 1 1 (2, 2) (Tensor (Input [Some 64, Some 8, Some 8]) [])
       @ bn_relu_conv_layers E_th 64 3 3 (1, 1)
           (bn_relu_conv_out E_th 64 1 1 (2, 2) (Tensor (Input [Some 64, Some 8, Some 8]) []))
       @ bn_relu_conv_layers E_th 256 1 1 (1, 1)
           (bn_relu_conv_out E_th 64 3 3 (1, 1)
             (bn_relu_conv_out E_th 64 1 1 (2, 2) (Tensor (Input [Some 64, Some 8, Some 8]) [])))
       @ rest"
proof -
  have "list_all (accepted E_th)
      (bn_relu_conv_layers E_th 64 1 1 (2, 2) (Tensor (Input [Some 64, Some 8, Some 8]) [])
        @ bn_relu_conv_layers E_th 64 3 3 (1, 1)
            (bn_relu_conv_out E_th 64 1 1 (2, 2) (Tensor (Input [Some 64, Some 8, Some 8]) []))
        @ bn_relu_conv_layers E_th (64 * 4) 1 1 (1, 1)
            (bn_relu_conv_out E_th 64 3 3 (1, 1)
              (bn_relu_conv_out E_th 64 1 1 (2, 2) (Tensor (Input [Some 64, Some 8, Some 8]) []))))"
    by (simp add: accepted_def keras1_layer_error_def E_th_def)
  with bottleneck_residual_path [where E = E_th and nb_filters = 64 and init_subsample = "(2, 2)"
      and inp = "Tensor (Input [Some 64, Some 8, Some 8]) []" and g = "[]"]
  show ?thesis by simp
qed

subsection \<open>C4: repetitions and filter counts of the stages\<close>

text \<open>
  Claim C4. \<open>build_stages\<close> is the loop of \<^verbatim>\<open>build\<close> over \<^verbatim>\<open>enumerate(repetitions)\<close>. For
  every list of repetitions there are initial subsamples, \<open>r\<^sub>i\<close> of them for stage \<open>i\<close>
  (none when \<open>r\<^sub>i\<close> is negative), such that for every block function the loop is the
  chain of calls of the block function, stage after stage, where every call of stage \<open>i\<close>
  gets the filter count \<open>64 * 2 ^ i\<close>.
\<close>

theorem stages_repeat_and_double:
  "\<exists>subs. length subs = length reps
     \<and> (\<forall>i < length reps. length (subs ! i) = nat (reps ! i))
     \<and> (\<forall>bf x. build_stages bf reps x =
          bind (apply_blocks bf
                 (concat (map (\<lambda>i. map (\<lambda>s. (64 * 2 ^ i, s)) (subs ! i)) [0 ..< length reps])) x)
               (\<lambda>block. return (block, 64 * 2 ^ length reps)))"
proof -
  define subs :: "(int \<times> int) list list" where
    "subs = map (\<lambda>i. map (\<lambda>j. if j = 0 \<and> i \<noteq> 0 then (2, 2) else (1, 1)) [0 ..< nat (reps ! i)])
                [0 ..< length reps]"
  have calls: "map (\<lambda>i. map (\<lambda>s. (64 * 2 ^ i, s)) (subs ! i)) [0 ..< length reps]
      = map (\<lambda>i. map (\<lambda>j. (64 * 2 ^ i, if j = 0 \<and> i \<noteq> 0 then (2, 2) else (1, 1)))
                     [0 ..< nat (reps ! i)])
            [0 ..< length reps]"
    by (rule map_cong [OF refl]) (simp add: subs_def comp_def)
  have "length subs = length reps"
    by (simp add: subs_def)
  moreover have "\<forall>i < length reps. length (subs ! i) = nat (reps ! i)"
    by (simp add: subs_def)
  moreover have "\<forall>bf x. build_stages bf reps x =
          bind (apply_blocks bf
                 (concat (map (\<lambda>i. map (\<lambda>s. (64 * 2 ^ i, s)) (subs ! i)) [0 ..< length reps])) x)
               (\<lambda>block. return (block, 64 * 2 ^ length reps))"
    unfolding calls by (simp add: build_stages_calls)
  ultimately show ?thesis by blast
qed

theorem stages_repeat_and_double_witness:
  "\<exists>a b c. \<forall>bf x. build_stages bf [2, 1] x =
      bind (apply_blocks bf [(64, a), (64, b), (128, c)] x) (\<lambda>block. return (block, 256))"
proof -
  from stages_repeat_and_double [of "[2, 1]"] obtain subs :: "(int \<times> int) list list" where
    len: "\<forall>i < length [2, 1 :: int]. length (subs ! i) = nat ([2, 1] ! i)"
    and run: "\<forall>bf x. build_stages bf [2, 1] x =
          bind (apply_blocks bf
                 (concat (map (\<lambda>i. map (\<lambda>s. (64 * 2 ^ i, s)) (subs ! i)) [0 ..< length [2, 1 :: int]])) x)
               (\<lambda>block. return (block, 64 * 2 ^ length [2, 1 :: int]))"
    by blast
  from len have "length (subs ! 0) = 2" and "length (subs ! 1) = 1"
    by simp_all
  then obtain a b c where "subs ! 0 = [a, b]" and "subs ! 1 = [c]"
    by (auto simp: length_Suc_conv numeral_2_eq_2)
  with run have "\<forall>bf x. build_stages bf [2, 1] x =
      bind (apply_blocks bf [(64, a), (64, b), (128, c)] x) (\<lambda>block. return (block, 256))"
    by (simp add: upt_rec)
  then show ?thesis by blast
qed

subsection \<open>C5: which blocks subsample\<close>

text \<open>
  Claim C5. For every list of repetitions there are filter counts, one for each stage,
  such that for every block function the loop of \<^verbatim>\<open>build\<close> is the chain of calls of the
  block function, stage after stage, where call \<open>j\<close> of stage \<open>i\<close> gets the initial
  subsample \<open>(2, 2)\<close> when \<open>j = 0\<close> and \<open>i \<noteq> 0\<close>, and \<open>(1, 1)\<close> otherwise. What a subsample
  of \<open>(2, 2)\<close> does to the resolution is the framework's arithmetic.
\<close>

theorem stages_subsample_first_block:
  "\<exists>fs. length fs = length reps
     \<and> (\<forall>bf x. build_stages bf reps x =
          bind (apply_blocks bf
                 (concat (map (\<lambda>i. map (\<lambda>j. (fs ! i, if j = 0 \<and> i \<noteq> 0 then (2, 2) else (1, 1)))
                                      [0 ..< nat (reps ! i)])
                              [0 ..< length reps])) x)
               (\<lambda>block. return (block, 64 * 2 ^ length reps)))"
proof -
  define fs :: "int list" where "fs = map (\<lambda>i. 64 * 2 ^ i) [0 ..< length reps]"
  have calls: "map (\<lambda>i. map (\<lambda>j. (fs ! i, if j = 0 \<and> i \<noteq> 0 then (2, 2) else (1, 1)))
                     [0 ..< nat (reps ! i)])
            [0 ..< length reps]
      = map (\<lambda>i. map (\<lambda>j. (64 * 2 ^ i, if j = 0 \<and> i \<noteq> 0 then (2, 2) else (1, 1)))
                     [0 ..< nat (reps ! i)])
            [0 ..< length reps]"
    by (rule map_cong [OF refl]) (simp add: fs_def)
  have "length fs = length reps"
    by (simp add: fs_def)
  moreover have "\<forall>bf x. build_stages bf reps x =
          bind (apply_blocks bf
                 (concat (map (\<lambda>i. map (\<lambda>j. (fs ! i, if j = 0 \<and> i \<noteq> 0 then (2, 2) else (1, 1)))
                                      [0 ..< nat (reps ! i)])
                              [0 ..< length reps])) x)
               (\<lambda>block. return (block, 64 * 2 ^ length reps))"
    unfolding calls by (simp add: build_stages_calls)
  ultimately show ?thesis by blast
qed

theorem stages_subsample_first_block_witness:
  "\<exists>f0 f1. \<forall>bf x. build_stages bf [2, 2] x =
      bind (apply_blocks bf [(f0, (1, 1)), (f0, (1, 1)), (f1, (2, 2)), (f1, (1, 1))] x)
           (\<lambda>block. return (block, 256))"
proof -
  from stages_subsample_first_block [of "[2, 2]"] obtain fs :: "int list" where
    run: "\<forall>bf x. build_stages bf [2, 2] x =
          bind (apply_blocks bf
                 (concat (map (\<lambda>i. map (\<lambda>j. (fs ! i, if j = 0 \<and> i \<noteq> 0 then (2, 2) else (1, 1)))
                                      [0 ..< nat ([2, 2] ! i)])
                              [0 ..< length [2, 2 :: int]])) x)
               (\<lambda>block. return (block, 64 * 2 ^ length [2, 2 :: int]))"
    by blast
  then have "\<forall>bf x. build_stages bf [2, 2] x =
      bind (apply_blocks bf [(fs ! 0, (1, 1)), (fs ! 0, (1, 1)), (fs ! 1, (2, 2)), (fs ! 1, (1, 1))] x)
           (\<lambda>block. return (block, 256))"
    by (simp add: upt_rec)
  then show ?thesis by blast
qed

subsection \<open>C3: the tables of the named variants\<close>

text \<open>
  Claim C3. Each named constructor is \<^verbatim>\<open>build\<close> with its block function, its list of
  repetitions and its mode, followed by the plot of the model under the variant's file
  name: basic blocks with [2, 2, 2, 2] for ResNet-18 and [3, 4, 6, 3] for ResNet-34 and
  its binary variant, bottleneck blocks with [3, 4, 6, 3], [3, 4, 23, 3] and
  [3, 8, 36, 3] for ResNet-50, 101 and 152; the mode is \<^verbatim>\<open>"binary"\<close> for the binary variant
  (with 1 as \<^verbatim>\<open>num_outputs\<close>) and \<^verbatim>\<open>"categorical"\<close> for the others.
\<close>

theorem variant_tables:
  "build_resnet_18 E input_shape num_outputs =
     plotted E ''resnet_18.png''
       (build E input_shape num_outputs (basic_block E) [2, 2, 2, 2] ''categorical'')
   \<and> build_resnet_34 E input_shape num_outputs =
     plotted E ''resnet_34.png''
       (build E input_shape num_outputs (basic_block E) [3, 4, 6, 3] ''categorical'')
   \<and> build_resnet_34_binary E input_shape =
     plotted E ''resnet_34_binary.png''
       (build E input_shape 1 (basic_block E) [3, 4, 6, 3] ''binary'')
   \<and> build_resnet_50 E input_shape num_outputs =
     plotted E ''resnet_50.png''
       (build E input_shape num_outputs (bottleneck E) [3, 4, 6, 3] ''categorical'')
   \<and> build_resnet_101 E input_shape num_outputs =
     plotted E ''resnet_101.png''
       (build E input_shape num_outputs (bottleneck E) [3, 4, 23, 3] ''categorical'')
   \<and> build_resnet_152 E input_shape num_outputs =
     plotted E ''resnet_152.png''
       (build E input_shape num_outputs (bottleneck E) [3, 8, 36, 3] ''categorical'')"
  by (simp add: build_resnet_18_def build_resnet_34_def build_resnet_34_binary_def
      build_resnet_50_def build_resnet_101_def build_resnet_152_def)

theorem variant_tables_witness:
  "build_resnet_18 E_th example_shape 10 =
     build E_th example_shape 10 (basic_block E_th) [2, 2, 2, 2] ''categorical''
   \<and> build_resnet_34 E_th example_shape 10 =
     build E_th example_shape 10 (basic_block E_th) [3, 4, 6, 3] ''categorical''
   \<and> build_resnet_34_binary E_th example_shape =
     build E_th example_shape 1 (basic_block E_th) [3, 4, 6, 3] ''binary''
   \<and> build_resnet_50 E_th example_shape 10 =
     build E_th example_shape 10 (bottleneck E_th) [3, 4, 6, 3] ''categorical''
   \<and> build_resnet_101 E_th example_shape 10 =
     build E_th example_shape 10 (bottleneck E_th) [3, 4, 23, 3] ''categorical''
   \<and> build_resnet_152 E_th example_shape 10 =
     build E_th example_shape 10 (bottleneck E_th) [3, 8, 36, 3] ''categorical''"
  using variant_tables [of E_th example_shape 10]
  by (simp only: plotted_E_th)

subsection \<open>C10: the dense layer of the two modes\<close>

text \<open>
  Claim C10. In mode \<^verbatim>\<open>"binary"\<close> the result of \<^verbatim>\<open>build\<close> does not depend on
  \<^verbatim>\<open>num_outputs\<close>, and the output of the model is a dense layer of output dimension 1 with
  sigmoid activation; in mode \<^verbatim>\<open>"categorical"\<close> it is a dense layer of output dimension
  \<^verbatim>\<open>num_outputs\<close> with softmax activation.
\<close>

theorem dense_head_by_mode:
  "build E input_shape num_outputs block_fn repetitions ''binary'' g =
     build E input_shape num_outputs' block_fn repetitions ''binary'' g
   \<and> (build E input_shape num_outputs block_fn repetitions ''binary'' g = (Inr m, g') \<longrightarrow>
        (\<exists>x. model_output m = Tensor (Dense 1 ''he_normal'' ''sigmoid'') [x]))
   \<and> (build E input_shape num_outputs block_fn repetitions ''categorical'' g = (Inr m, g') \<longrightarrow>
        (\<exists>x. model_output m = Tensor (Dense num_outputs ''he_normal'' ''softmax'') [x]))"
proof (intro conjI impI)
  show "build E input_shape num_outputs block_fn repetitions ''binary'' g =
     build E input_shape num_outputs' block_fn repetitions ''binary'' g"
    by (simp add: build_split)
next
  assume "build E input_shape num_outputs block_fn repetitions ''binary'' g = (Inr m, g')"
  from build_returns [OF this]
  show "\<exists>x. model_output m = Tensor (Dense 1 ''he_normal'' ''sigmoid'') [x]"
    by auto
next
  assume "build E input_shape num_outputs block_fn repetitions ''categorical'' g = (Inr m, g')"
  from build_returns [OF this]
  show "\<exists>x. model_output m = Tensor (Dense num_outputs ''he_normal'' ''softmax'') [x]"
    by auto
qed

theorem dense_head_by_mode_witness:
  "build E_th example_shape 10 (basic_block E_th) [1] ''binary'' [] =
     build E_th example_shape 1000 (basic_block E_th) [1] ''binary'' []
   \<and> (\<exists>m g' x. build E_th example_shape 10 (basic_block E_th) [1] ''binary'' [] = (Inr m, g')
         \<and> model_output m = Tensor (Dense 1 ''he_normal'' ''sigmoid'') [x])
   \<and> (\<exists>m g' x. build E_th example_shape 10 (basic_block E_th) [1] ''categorical'' [] = (Inr m, g')
         \<and> model_output m = Tensor (Dense 10 ''he_normal'' ''softmax'') [x])"
proof -
  obtain m1 g1 where
    b: "build E_th example_shape 10 (basic_block E_th) [1] ''binary'' [] = (Inr m1, g1)"
    by (simp add: example_build)
  obtain m2 g2 where
    c: "build E_th example_shape 10 (basic_block E_th) [1] ''categorical'' [] = (Inr m2, g2)"
    by (simp add: example_build)
  from dense_head_by_mode [of E_th example_shape 10 "basic_block E_th" "[1]" "[]" 1000 m1 g1]
    dense_head_by_mode [of E_th example_shape 10 "basic_block E_th" "[1]" "[]" 1000 m2 g2] b c
  show ?thesis by blast
qed

subsection \<open>C6: the model that build returns\<close>

text \<open>
  Claim C6 says that \<^verbatim>\<open>build\<close> returns a compiled model. \<^verbatim>\<open>build\<close> never calls
  \<^verbatim>\<open>compile\<close>: the model of the small run has no loss and no optimizer.
\<close>

theorem build_compiled_counterexample:
  "map_sum id compiled (fst (build E_th example_shape 10 (basic_block E_th) [1] ''categorical'' []))
     = Inr None"
  by (simp add: example_build)

text \<open>
  C6, amended. Whenever \<^verbatim>\<open>build\<close> returns, it returns the model object whose input is
  the input layer and whose output is the dense layer on the flatten layer, and this model
  is not compiled; compiling is left to the caller, as \<^verbatim>\<open>main\<close> does.
\<close>

theorem build_returns_uncompiled_model:
  "build E input_shape num_outputs block_fn repetitions mode g = (Inr m, g') \<longrightarrow>
     (\<exists>block. m =
        \<lparr>model_input = Tensor (Input input_shape) [],
         model_output =
           Tensor (if mode = ''categorical'' then Dense num_outputs ''he_normal'' ''softmax''
                   else Dense 1 ''he_normal'' ''sigmoid'')
             [Tensor Flatten
               [Tensor (AveragePooling2D
                         (keras_shape E block ! ROW_AXIS E, keras_shape E block ! COL_AXIS E) (1, 1))
                  [block]]],
         compiled = None\<rparr>)
     \<and> (mode = ''categorical'' \<or> mode = ''binary'')"
proof
  assume "build E input_shape num_outputs block_fn repetitions mode g = (Inr m, g')"
  from build_returns [OF this] obtain inp fl g1 where
    mode: "mode = ''categorical'' \<or> mode = ''binary''"
    and graph: "build_graph E input_shape block_fn repetitions g = (Inr (inp, fl), g1)"
    and m: "m = \<lparr>model_input = inp, model_output = Tensor (dense_layer mode num_outputs) [fl],
                 compiled = None\<rparr>"
    by blast
  from build_graph_returns [OF graph] obtain block where
    "inp = Tensor (Input input_shape) []" and "fl = flattened E block"
    by blast
  with m mode show "(\<exists>block. m =
        \<lparr>model_input = Tensor (Input input_shape) [],
         model_output =
           Tensor (if mode = ''categorical'' then Dense num_outputs ''he_normal'' ''softmax''
                   else Dense 1 ''he_normal'' ''sigmoid'')
             [Tensor Flatten
               [Tensor (AveragePooling2D
                         (keras_shape E block ! ROW_AXIS E, keras_shape E block ! COL_AXIS E) (1, 1))
                  [block]]],
         compiled = None\<rparr>)
     \<and> (mode = ''categorical'' \<or> mode = ''binary'')"
    by blast
qed

theorem build_returns_uncompiled_model_witness:
  "\<exists>m g' block. build E_th example_shape 10 (basic_block E_th) [1] ''categorical'' [] = (Inr m, g')
     \<and> m = \<lparr>model_input = Tensor (Input example_shape) [],
             model_output = Tensor (Dense 10 ''he_normal'' ''softmax'') [flattened E_th block],
             compiled = None\<rparr>"
proof -
  obtain m g' where
    b: "build E_th example_shape 10 (basic_block E_th) [1] ''categorical'' [] = (Inr m, g')"
    by (simp add: example_build)
  from build_returns_uncompiled_model [of E_th example_shape 10 "basic_block E_th" "[1]"
      "''categorical''" "[]" m g'] b
  show ?thesis by auto
qed

subsection \<open>C9: when build raises\<close>

text \<open>
  Claim C9 says that \<^verbatim>\<open>build\<close> raises exactly when the input shape has not 3 elements or
  the mode is invalid. With the input shape \<^verbatim>\<open>(3, None, None)\<close>, one basic block and the
  mode \<^verbatim>\<open>"categorical"\<close>, the rows of the block's input and of its residual are unknown, and
  the stride division in \<^verbatim>\<open>_shortcut\<close> raises \<^verbatim>\<open>TypeError\<close> when the stem and the residual path
  have been built.
\<close>

theorem build_raises_counterexample:
  "length [Some 3, None, None :: int option] = 3
   \<and> build E_th [Some 3, None, None] 10 (basic_block E_th) [1] ''categorical'' []
       = (Inl TypeError,
          stem_layers E_th [Some 3, None, None]
            @ bn_relu_conv_layers E_th 64 3 3 (1, 1) (stem_pool E_th [Some 3, None, None])
            @ bn_relu_conv_layers E_th 64 3 3 (1, 1)
                (bn_relu_conv_out E_th 64 3 3 (1, 1) (stem_pool E_th [Some 3, None, None])))"
  by (simp add: build_split bind_apply example_unknown_size)

text \<open>
  C9, amended. \<^verbatim>\<open>build\<close> raises exactly when the input shape has not 3 elements, or
  building the graph from the input layer to the flatten layer raises (the framework
  refuses a layer, the stride division in \<^verbatim>\<open>_shortcut\<close> or the indexing of a shape raises),
  or the mode is invalid, or the framework refuses the dense layer or the model. With an
  input shape that has not 3 elements it raises before anything is added to the graph.
  When the graph up to the flatten layer cannot be built, that exception is raised,
  whatever the mode. An invalid mode is rejected when the graph holds everything up to
  the average pooling and the flatten layer, and no dense layer.
\<close>

theorem build_raises:
  "(length input_shape \<noteq> 3 \<longrightarrow>
      build E input_shape num_outputs block_fn repetitions mode g =
        (Inl (Exception ''Input shape should be a tuple (nb_channels, nb_rows, nb_cols)''), g))
   \<and> (length input_shape = 3 \<longrightarrow>
        (build_graph E input_shape block_fn repetitions g = (Inl e, g1) \<longrightarrow>
           build E input_shape num_outputs block_fn repetitions mode g = (Inl e, g1))
      \<and> (build_graph E input_shape block_fn repetitions g = (Inr (inp, flatten1), g1) \<longrightarrow>
           inp = Tensor (Input input_shape) []
         \<and> (\<exists>block gs. flatten1 = Tensor Flatten [global_pool E block]
               \<and> g1 = gs @ [global_pool E block, flatten1])
         \<and> (mode \<noteq> ''categorical'' \<and> mode \<noteq> ''binary'' \<longrightarrow>
              build E input_shape num_outputs block_fn repetitions mode g =
                (Inl (Exception ''mode should either be categorical or binary''), g1))
         \<and> (mode = ''categorical'' \<or> mode = ''binary'' \<longrightarrow>
              build E input_shape num_outputs block_fn repetitions mode g =
                bind (call E (dense_layer mode num_outputs) [flatten1]) (Model E inp) g1)))
   \<and> ((\<exists>e g2. build E input_shape num_outputs block_fn repetitions mode g = (Inl e, g2)) \<longleftrightarrow>
        length input_shape \<noteq> 3
      \<or> (\<exists>e g1. build_graph E input_shape block_fn repetitions g = (Inl e, g1))
      \<or> (mode \<noteq> ''categorical'' \<and> mode \<noteq> ''binary'')
      \<or> (\<exists>inp flatten1 g1.
            build_graph E input_shape block_fn repetitions g = (Inr (inp, flatten1), g1)
          \<and> (layer_error E (dense_layer mode num_outputs) [flatten1] \<noteq> None
             \<or> model_error E inp (Tensor (dense_layer mode num_outputs) [flatten1]) \<noteq> None)))"
proof (intro conjI impI)
  assume "length input_shape \<noteq> 3"
  then show "build E input_shape num_outputs block_fn repetitions mode g =
        (Inl (Exception ''Input shape should be a tuple (nb_channels, nb_rows, nb_cols)''), g)"
    by (simp add: build_split raise_apply)
next
  assume "length input_shape = 3"
    and "build_graph E input_shape block_fn repetitions g = (Inl e, g1)"
  then show "build E input_shape num_outputs block_fn repetitions mode g = (Inl e, g1)"
    by (simp add: build_split bind_apply)
next
  assume "build_graph E input_shape block_fn repetitions g = (Inr (inp, flatten1), g1)"
  from build_graph_returns [OF this]
  show "inp = Tensor (Input input_shape) []"
    and "\<exists>block gs. flatten1 = Tensor Flatten [global_pool E block]
               \<and> g1 = gs @ [global_pool E block, flatten1]"
    by auto
next
  assume "length input_shape = 3"
    and "build_graph E input_shape block_fn repetitions g = (Inr (inp, flatten1), g1)"
    and "mode \<noteq> ''categorical'' \<and> mode \<noteq> ''binary''"
  then show "build E input_shape num_outputs block_fn repetitions mode g =
                (Inl (Exception ''mode should either be categorical or binary''), g1)"
    by (simp add: build_split bind_apply raise_apply)
next
  assume "length input_shape = 3"
    and "build_graph E input_shape block_fn repetitions g = (Inr (inp, flatten1), g1)"
    and "mode = ''categorical'' \<or> mode = ''binary''"
  then show "build E input_shape num_outputs block_fn repetitions mode g =
                bind (call E (dense_layer mode num_outputs) [flatten1]) (Model E inp) g1"
    by (auto simp: build_split bind_apply)
next
  show "(\<exists>e g2. build E input_shape num_outputs block_fn repetitions mode g = (Inl e, g2)) \<longleftrightarrow>
        length input_shape \<noteq> 3
      \<or> (\<exists>e g1. build_graph E input_shape block_fn repetitions g = (Inl e, g1))
      \<or> (mode \<noteq> ''categorical'' \<and> mode \<noteq> ''binary'')
      \<or> (\<exists>inp flatten1 g1.
            build_graph E input_shape block_fn repetitions g = (Inr (inp, flatten1), g1)
          \<and> (layer_error E (dense_layer mode num_outputs) [flatten1] \<noteq> None
             \<or> model_error E inp (Tensor (dense_layer mode num_outputs) [flatten1]) \<noteq> None))"
  proof (cases "build_graph E input_shape block_fn repetitions g")
    case (Pair r g1)
    show ?thesis
    proof (cases r)
      case (Inl e)
      with Pair show ?thesis
        by (auto simp: build_split bind_apply raise_apply)
    next
      case (Inr p)
      obtain inp flatten1 where "p = (inp, flatten1)"
        by (cases p)
      with Pair Inr show ?thesis
        by (auto simp: build_split bind_apply raise_apply call_apply Model_apply return_apply
            split: option.splits)
    qed
  qed
qed

theorem build_raises_witness:
  "build E_th [Some 224, Some 224] 10 (basic_block E_th) [1] ''categorical'' [] =
     (Inl (Exception ''Input shape should be a tuple (nb_channels, nb_rows, nb_cols)''), [])
   \<and> build E_th [Some 3, None, None] 10 (basic_block E_th) [1] ''multilabel'' [] =
     (Inl TypeError,
      stem_layers E_th [Some 3, None, None]
        @ bn_relu_conv_layers E_th 64 3 3 (1, 1) (stem_pool E_th [Some 3, None, None])
        @ bn_relu_conv_layers E_th 64 3 3 (1, 1)
            (bn_relu_conv_out E_th 64 3 3 (1, 1) (stem_pool E_th [Some 3, None, None])))
   \<and> build E_th example_shape 10 (basic_block E_th) [1] ''multilabel'' [] =
     (Inl (Exception ''mode should either be categorical or binary''),
      example_graph @ [global_pool E_th example_block, flattened E_th example_block])
   \<and> build E_th example_shape 10 (basic_block E_th) [1] ''binary'' [] =
     (Inr \<lparr>model_input = Tensor (Input example_shape) [],
           model_output = Tensor (Dense 1 ''he_normal'' ''sigmoid'') [flattened E_th example_block],
           compiled = None\<rparr>,
      example_graph @ [global_pool E_th example_block, flattened E_th example_block,
                       Tensor (Dense 1 ''he_normal'' ''sigmoid'') [flattened E_th example_block]])"
proof (intro conjI)
  show "build E_th [Some 224, Some 224] 10 (basic_block E_th) [1] ''categorical'' [] =
     (Inl (Exception ''Input shape should be a tuple (nb_channels, nb_rows, nb_cols)''), [])"
    using build_raises [where input_shape = "[Some 224, Some 224]" and E = E_th
        and num_outputs = 10 and block_fn = "basic_block E_th" and repetitions = "[1]"
        and mode = "''categorical''" and g = "[]"]
    by simp
  show "build E_th [Some 3, None, None] 10 (basic_block E_th) [1] ''multilabel'' [] =
     (Inl TypeError,
      stem_layers E_th [Some 3, None, None]
        @ bn_relu_conv_layers E_th 64 3 3 (1, 1) (stem_pool E_th [Some 3, None, None])
        @ bn_relu_conv_layers E_th 64 3 3 (1, 1)
            (bn_relu_conv_out E_th 64 3 3 (1, 1) (stem_pool E_th [Some 3, None, None])))"
    using build_raises [where input_shape = "[Some 3, None, None]" and E = E_th
        and num_outputs = 10 and block_fn = "basic_block E_th" and repetitions = "[1]"
        and mode = "''multilabel''" and g = "[]" and e = TypeError
        and ?g1.0 = "stem_layers E_th [Some 3, None, None]
        @ bn_relu_conv_layers E_th 64 3 3 (1, 1) (stem_pool E_th [Some 3, None, None])
        @ bn_relu_conv_layers E_th 64 3 3 (1, 1)
            (bn_relu_conv_out E_th 64 3 3 (1, 1) (stem_pool E_th [Some 3, None, None]))"]
      example_unknown_size
    by simp
  show "build E_th example_shape 10 (basic_block E_th) [1] ''multilabel'' [] =
     (Inl (Exception ''mode should either be categorical or binary''),
      example_graph @ [global_pool E_th example_block, flattened E_th example_block])"
    using build_raises [where input_shape = example_shape and E = E_th
        and num_outputs = 10 and block_fn = "basic_block E_th" and repetitions = "[1]"
        and mode = "''multilabel''" and g = "[]"
        and inp = "Tensor (Input example_shape) []" and ?flatten1.0 = "flattened E_th example_block"
        and ?g1.0 = "example_graph @ [global_pool E_th example_block, flattened E_th example_block]"]
      example_build_graph
    by simp
  show "build E_th example_shape 10 (basic_block E_th) [1] ''binary'' [] =
     (Inr \<lparr>model_input = Tensor (Input example_shape) [],
           model_output = Tensor (Dense 1 ''he_normal'' ''sigmoid'') [flattened E_th example_block],
           compiled = None\<rparr>,
      example_graph @ [global_pool E_th example_block, flattened E_th example_block,
                       Tensor (Dense 1 ''he_normal'' ''sigmoid'') [flattened E_th example_block]])"
    using build_raises [where input_shape = example_shape and E = E_th
        and num_outputs = 10 and block_fn = "basic_block E_th" and repetitions = "[1]"
        and mode = "''binary''" and g = "[]"
        and inp = "Tensor (Input example_shape) []" and ?flatten1.0 = "flattened E_th example_block"
        and ?g1.0 = "example_graph @ [global_pool E_th example_block, flattened E_th example_block]"]
      example_build_graph example_accepted(4) [of "''binary''" 10]
    by (simp add: bind_apply call_accepted Model_apply example_model_error)
qed

end
